theory Spec2Isabelle
  imports Complex_Main
begin

section \<open>The storage of a CSRMatrix\<close>

text \<open>
  The class \<^verbatim>\<open>CSRMatrix\<close> of \<^verbatim>\<open>hw3_csr_matrix.py\<close> keeps three parallel Python lists
  (\<^verbatim>\<open>row_ind\<close>, \<^verbatim>\<open>column_ind\<close>, \<^verbatim>\<open>data\<close>), a \<^verbatim>\<open>shape\<close> and the counter \<^verbatim>\<open>_nnz\<close>.
  Indices and the counter are Python integers (\<open>int\<close>). Stored values are numbers; they
  are modelled as rationals, so the arithmetic of Python's integers is exact. Values read
  from an \<^verbatim>\<open>np.ndarray\<close> are numpy scalars of fixed width: a sum or product that leaves
  the range of \<^verbatim>\<open>np.int64\<close> wraps in the code, and \<^verbatim>\<open>np.float64\<close> rounds; neither is
  modelled, so the model gives the code's values only where every sum, product and
  quotient the code forms is exact. The evaluations below start from the values 0, 1, 2 and 5,
  where this holds. The three lists are kept apart, as in the code: nothing in the class
  forces them to have one length.
\<close>

datatype error = ValueError | IndexError

record csr_matrix =
  nnz :: int
  shape :: "int list"
  row_ind :: "int list"
  column_ind :: "int list"
  data :: "rat list"

text \<open>
  A two-dimensional \<^verbatim>\<open>np.ndarray\<close>: its shape \<open>(dim0, dim1)\<close> and its rows. A well-formed
  array has \<open>dim0\<close> rows of \<open>dim1\<close> cells each.
\<close>

record ndarray =
  dim0 :: nat
  dim1 :: nat
  cells :: "rat list list"

definition wf_ndarray :: "ndarray \<Rightarrow> bool" where
  "wf_ndarray D = (length (cells D) = dim0 D \<and> list_all (\<lambda>r. length r = dim1 D) (cells D))"

text \<open>
  What \<^verbatim>\<open>__init__\<close> dispatches on: a tuple of three sequences, an \<^verbatim>\<open>np.ndarray\<close>, or
  anything else.
\<close>

datatype init_repr =
  Triplets "int list" "int list" "rat list"
  | Dense ndarray
  | Other

text \<open>The zipped view \<^verbatim>\<open>zip(self.row_ind, self.column_ind, self.data)\<close>; \<open>zip\<close> stops at the
  shortest list, as Python's does.\<close>

definition triplets :: "csr_matrix \<Rightarrow> (int \<times> int \<times> rat) list" where
  "triplets self = zip (row_ind self) (zip (column_ind self) (data self))"

definition coords :: "csr_matrix \<Rightarrow> (int \<times> int) list" where
  "coords self = zip (row_ind self) (column_ind self)"

definition wf_lengths :: "csr_matrix \<Rightarrow> bool" where
  "wf_lengths self =
     (length (row_ind self) = length (data self) \<and> length (column_ind self) = length (data self))"

text \<open>Row-major order on coordinate pairs, and the order invariant of the stored list.\<close>

definition coord_less :: "int \<times> int \<Rightarrow> int \<times> int \<Rightarrow> bool" where
  "coord_less a b = (fst a < fst b \<or> (fst a = fst b \<and> snd a < snd b))"

definition strictly_sorted :: "csr_matrix \<Rightarrow> bool" where
  "strictly_sorted self = sorted_wrt coord_less (coords self)"

subsection \<open>\<^verbatim>\<open>__init__\<close>\<close>

text \<open>The body of the nested \<^verbatim>\<open>for\<close> iteration over a dense array (lines 50-53).\<close>

definition scan_cell :: "ndarray \<Rightarrow> nat \<Rightarrow> nat \<Rightarrow> csr_matrix \<Rightarrow> csr_matrix" where
  "scan_cell D i j self =
     (if cells D ! i ! j \<noteq> 0
      then self\<lparr>data := data self @ [cells D ! i ! j],
                row_ind := row_ind self @ [int i],
                column_ind := column_ind self @ [int j]\<rparr>
      else self)"

definition CSRMatrix_init :: "init_repr \<Rightarrow> error + csr_matrix" where
  "CSRMatrix_init rep =
     (let self = \<lparr>nnz = 0, shape = [], row_ind = [], column_ind = [], data = []\<rparr> in
      case rep of
        Triplets r c d \<Rightarrow>
          (let self = self\<lparr>row_ind := r, column_ind := c, data := d\<rparr>
           in Inr (self\<lparr>nnz := int (length (data self))\<rparr>))
      | Dense D \<Rightarrow>
          (let self = fold (\<lambda>i. fold (\<lambda>j. scan_cell D i j) [0..<dim1 D]) [0..<dim0 D] self;
               self = self\<lparr>shape := [int (dim0 D), int (dim1 D)]\<rparr>
           in Inr (self\<lparr>nnz := int (length (data self))\<rparr>))
      | Other \<Rightarrow> Inl ValueError)"

subsection \<open>\<^verbatim>\<open>__getitem__\<close>\<close>

fun getitem_loop :: "int \<times> int \<Rightarrow> (int \<times> int \<times> rat) list \<Rightarrow> rat" where
  "getitem_loop item [] = 0"
| "getitem_loop item ((i, j, d) # rest) =
     (if fst item = i \<and> snd item = j then d else getitem_loop item rest)"

text \<open>No statement of \<^verbatim>\<open>__getitem__\<close> can raise: the result is always \<open>Inr\<close>.\<close>

definition getitem :: "csr_matrix \<Rightarrow> int \<times> int \<Rightarrow> error + rat" where
  "getitem self item = Inr (getitem_loop item (triplets self))"

subsection \<open>\<^verbatim>\<open>__setitem__\<close>\<close>

text \<open>\<^verbatim>\<open>xs.pop(k)\<close> and \<^verbatim>\<open>xs.insert(k, x)\<close> for \<open>0 \<le> k\<close>; \<^verbatim>\<open>pop\<close> raises when \<open>k\<close> is
  out of range, which the callers below test first.\<close>

definition list_pop :: "nat \<Rightarrow> 'a list \<Rightarrow> 'a list" where
  "list_pop k xs = take k xs @ drop (Suc k) xs"

definition list_insert :: "nat \<Rightarrow> 'a \<Rightarrow> 'a list \<Rightarrow> 'a list" where
  "list_insert k x xs = take k xs @ x # drop k xs"

text \<open>
  The loop runs over \<^verbatim>\<open>zip(self.row_ind, self.column_ind, range(len(self.data) + 1))\<close>.
  Every branch that changes a list returns at once, so the lists the loop reads are those
  of the call's start. \<^verbatim>\<open>self.data.pop(k)\<close> and \<^verbatim>\<open>self.data[k] = value\<close> raise
  \<^verbatim>\<open>IndexError\<close> when \<open>k = len(self.data)\<close>, before anything is changed.
\<close>

fun setitem_loop ::
  "csr_matrix \<Rightarrow> int \<times> int \<Rightarrow> rat \<Rightarrow> (int \<times> int \<times> nat) list \<Rightarrow> error + csr_matrix" where
  "setitem_loop self key v [] =
     Inr (self\<lparr>row_ind := row_ind self @ [fst key],
               column_ind := column_ind self @ [snd key],
               data := data self @ [v]\<rparr>)"
| "setitem_loop self key v ((i, j, k) # rest) =
     (if fst key = i \<and> snd key = j then
        (if v = 0 then
           (if k < length (data self)
            then Inr (self\<lparr>data := list_pop k (data self),
                           row_ind := list_pop k (row_ind self),
                           column_ind := list_pop k (column_ind self),
                           nnz := nnz self - 1\<rparr>)
            else Inl IndexError)
         else
           (if k < length (data self)
            then Inr (self\<lparr>data := (data self)[k := v]\<rparr>)
            else Inl IndexError))
      else if (fst key = i \<and> snd key > j) \<or> fst key > i then
        (let self = (if k \<noteq> length (data self)
                     then self\<lparr>row_ind := list_insert k (fst key) (row_ind self),
                               column_ind := list_insert k (snd key) (column_ind self),
                               data := list_insert k v (data self)\<rparr>
                     else self)
         in Inr (self\<lparr>nnz := nnz self + 1\<rparr>))
      else setitem_loop self key v rest)"

definition setitem :: "csr_matrix \<Rightarrow> int \<times> int \<Rightarrow> rat \<Rightarrow> error + csr_matrix" where
  "setitem self key v =
     setitem_loop self key v
       (zip (row_ind self) (zip (column_ind self) [0..<length (data self) + 1]))"

subsection \<open>\<^verbatim>\<open>to_dense\<close>\<close>

text \<open>
  \<^verbatim>\<open>np.zeros((r, c))\<close> raises \<^verbatim>\<open>ValueError\<close> for a negative dimension; \<^verbatim>\<open>xs[-1]\<close> raises
  \<^verbatim>\<open>IndexError\<close> on an empty list; an index \<open>i\<close> into an axis of length \<open>n\<close> is in range
  when \<open>-n \<le> i < n\<close>, a negative one counting from the end.
\<close>

definition np_zeros :: "nat \<Rightarrow> nat \<Rightarrow> ndarray" where
  "np_zeros r c = \<lparr>dim0 = r, dim1 = c, cells = replicate r (replicate c 0)\<rparr>"

definition np_index :: "nat \<Rightarrow> int \<Rightarrow> error + nat" where
  "np_index n i =
     (if 0 \<le> i \<and> i < int n then Inr (nat i)
      else if - int n \<le> i \<and> i < 0 then Inr (nat (i + int n))
      else Inl IndexError)"

definition nd_set :: "ndarray \<Rightarrow> int \<Rightarrow> int \<Rightarrow> rat \<Rightarrow> error + ndarray" where
  "nd_set D i j v =
     (case np_index (dim0 D) i of
        Inl e \<Rightarrow> Inl e
      | Inr i' \<Rightarrow>
          (case np_index (dim1 D) j of
             Inl e \<Rightarrow> Inl e
           | Inr j' \<Rightarrow> Inr (D\<lparr>cells := (cells D)[i' := (cells D ! i')[j' := v]]\<rparr>)))"

fun to_dense_loop :: "ndarray \<Rightarrow> (int \<times> int \<times> rat) list \<Rightarrow> error + ndarray" where
  "to_dense_loop D [] = Inr D"
| "to_dense_loop D ((i, j, d) # rest) =
     (case nd_set D i j d of Inl e \<Rightarrow> Inl e | Inr D' \<Rightarrow> to_dense_loop D' rest)"

definition to_dense :: "csr_matrix \<Rightarrow> error + ndarray" where
  "to_dense self =
     (if row_ind self = [] then Inl IndexError
      else if column_ind self = [] then Inl IndexError
      else let r = last (row_ind self) + 1; c = last (column_ind self) + 1 in
        if r < 0 \<or> c < 0 then Inl ValueError
        else to_dense_loop (np_zeros (nat r) (nat c)) (triplets self))"

subsection \<open>\<^verbatim>\<open>_op\<close>: the merge behind \<^verbatim>\<open>+\<close>, \<^verbatim>\<open>-\<close> and elementwise \<^verbatim>\<open>*\<close>\<close>

text \<open>
  \<^verbatim>\<open>_op\<close> is private and only ever called with \<^verbatim>\<open>'add'\<close>, \<^verbatim>\<open>'sub'\<close> or \<^verbatim>\<open>'mul'\<close>.
  Its local variables are the two cursors and the three result lists. \<^verbatim>\<open>xs[k]\<close> with
  \<open>0 \<le> k\<close> raises \<^verbatim>\<open>IndexError\<close> when \<open>k\<close> is not below the length.
\<close>

datatype action = Add | Sub | Mul

record op_state =
  cur_i :: nat
  cur_j :: nat
  res_row :: "int list"
  res_cl :: "int list"
  res_data :: "rat list"

definition py_nth :: "'a list \<Rightarrow> nat \<Rightarrow> error + 'a" where
  "py_nth xs k = (if k < length xs then Inr (xs ! k) else Inl IndexError)"

text \<open>First branch (lines 117-124): the entry of \<^verbatim>\<open>other\<close> comes first.\<close>

definition take_other :: "action \<Rightarrow> csr_matrix \<Rightarrow> op_state \<Rightarrow> error + op_state" where
  "take_other act other st =
     (let j = cur_j st in
      case (if act \<noteq> Mul then
              (case py_nth (row_ind other) j of
                 Inl e \<Rightarrow> Inl e
               | Inr r \<Rightarrow>
                   (case py_nth (column_ind other) j of
                      Inl e \<Rightarrow> Inl e
                    | Inr c \<Rightarrow> Inr (st\<lparr>res_row := res_row st @ [r], res_cl := res_cl st @ [c]\<rparr>)))
            else Inr st) of
        Inl e \<Rightarrow> Inl e
      | Inr st1 \<Rightarrow>
          (case (case act of
                   Add \<Rightarrow>
                     (case py_nth (data other) j of
                        Inl e \<Rightarrow> Inl e
                      | Inr d \<Rightarrow> Inr (st1\<lparr>res_data := res_data st1 @ [d]\<rparr>))
                 | Sub \<Rightarrow>
                     (case py_nth (data other) j of
                        Inl e \<Rightarrow> Inl e
                      | Inr d \<Rightarrow> Inr (st1\<lparr>res_data := res_data st1 @ [- d]\<rparr>))
                 | Mul \<Rightarrow> Inr st1) of
             Inl e \<Rightarrow> Inl e
           | Inr st2 \<Rightarrow> Inr (st2\<lparr>cur_j := j + 1\<rparr>)))"

text \<open>Second branch (lines 126-140): equal coordinates. A zero sum or difference is
  skipped by \<^verbatim>\<open>continue\<close>, both cursors advanced; a zero product is stored.\<close>

definition combine :: "action \<Rightarrow> csr_matrix \<Rightarrow> csr_matrix \<Rightarrow> op_state \<Rightarrow> error + op_state" where
  "combine act self other st =
     (let i = cur_i st; j = cur_j st in
      case py_nth (data other) j of
        Inl e \<Rightarrow> Inl e
      | Inr od \<Rightarrow>
          (case py_nth (data self) i of
             Inl e \<Rightarrow> Inl e
           | Inr sd \<Rightarrow>
               (let v = (case act of Add \<Rightarrow> od + sd | Sub \<Rightarrow> sd - od | Mul \<Rightarrow> od * sd) in
                if act \<noteq> Mul \<and> v = 0 then Inr (st\<lparr>cur_i := i + 1, cur_j := j + 1\<rparr>)
                else
                  (case py_nth (row_ind other) j of
                     Inl e \<Rightarrow> Inl e
                   | Inr r \<Rightarrow>
                       (case py_nth (column_ind other) j of
                          Inl e \<Rightarrow> Inl e
                        | Inr c \<Rightarrow>
                            Inr (st\<lparr>res_data := res_data st @ [v],
                                     res_row := res_row st @ [r],
                                     res_cl := res_cl st @ [c],
                                     cur_i := i + 1, cur_j := j + 1\<rparr>))))))"

text \<open>Third branch (lines 143-147): the entry of \<^verbatim>\<open>self\<close> comes first.\<close>

definition take_self :: "action \<Rightarrow> csr_matrix \<Rightarrow> op_state \<Rightarrow> error + op_state" where
  "take_self act self st =
     (let i = cur_i st in
      case (if act \<noteq> Mul then
              (case py_nth (row_ind self) i of
                 Inl e \<Rightarrow> Inl e
               | Inr r \<Rightarrow>
                   (case py_nth (column_ind self) i of
                      Inl e \<Rightarrow> Inl e
                    | Inr c \<Rightarrow>
                        (case py_nth (data self) i of
                           Inl e \<Rightarrow> Inl e
                         | Inr d \<Rightarrow>
                             Inr (st\<lparr>res_row := res_row st @ [r],
                                      res_cl := res_cl st @ [c],
                                      res_data := res_data st @ [d]\<rparr>))))
            else Inr st) of
        Inl e \<Rightarrow> Inl e
      | Inr st1 \<Rightarrow> Inr (st1\<lparr>cur_i := i + 1\<rparr>))"

text \<open>
  One pass of the \<^verbatim>\<open>while\<close> body after the test \<^verbatim>\<open>j == len(other.data)\<close> (lines 115-147).
  The conditions of the \<^verbatim>\<open>if\<close>/\<^verbatim>\<open>elif\<close> chain read the column indices only when the row
  indices are equal (\<^verbatim>\<open>or\<close> and \<^verbatim>\<open>and\<close> short-circuit), so a missing column index raises
  only then. The chain has no \<^verbatim>\<open>else\<close>: were no condition true, the state would stay as
  it is.
\<close>

definition op_step :: "action \<Rightarrow> csr_matrix \<Rightarrow> csr_matrix \<Rightarrow> op_state \<Rightarrow> error + op_state" where
  "op_step act self other st =
     (let i = cur_i st; j = cur_j st in
      case py_nth (row_ind other) j of
        Inl e \<Rightarrow> Inl e
      | Inr orow \<Rightarrow>
          (case py_nth (row_ind self) i of
             Inl e \<Rightarrow> Inl e
           | Inr srow \<Rightarrow>
               if orow \<noteq> srow then
                 (if orow < srow then take_other act other st
                  else if orow > srow then take_self act self st
                  else Inr st)
               else
                 (case py_nth (column_ind other) j of
                    Inl e \<Rightarrow> Inl e
                  | Inr ocol \<Rightarrow>
                      (case py_nth (column_ind self) i of
                         Inl e \<Rightarrow> Inl e
                       | Inr scol \<Rightarrow>
                           if orow < srow \<or> (orow = srow \<and> ocol < scol)
                           then take_other act other st
                           else if orow = srow \<and> ocol = scol
                           then combine act self other st
                           else if orow > srow \<or> (orow = srow \<and> ocol > scol)
                           then take_self act self st
                           else Inr st))))"

definition op_measure :: "csr_matrix \<Rightarrow> csr_matrix \<Rightarrow> op_state \<Rightarrow> nat" where
  "op_measure self other st =
     (length (row_ind self) - cur_i st) + (length (row_ind other) - cur_j st)"

lemma take_other_cursors:
  "take_other act other st = Inr st' \<Longrightarrow> cur_i st' = cur_i st \<and> cur_j st' = cur_j st + 1"
  by (auto simp: take_other_def Let_def split: sum.splits if_splits action.splits)

lemma take_self_cursors:
  "take_self act self st = Inr st' \<Longrightarrow> cur_i st' = cur_i st + 1 \<and> cur_j st' = cur_j st"
  by (auto simp: take_self_def Let_def split: sum.splits if_splits)

lemma combine_cursors:
  "combine act self other st = Inr st' \<Longrightarrow> cur_i st' = cur_i st + 1 \<and> cur_j st' = cur_j st + 1"
  by (auto simp: combine_def Let_def split: sum.splits if_splits)

lemma op_step_decreases:
  assumes "op_step act self other st = Inr st'"
  shows "op_measure self other st' < op_measure self other st"
proof -
  from assms have i: "cur_i st < length (row_ind self)" and j: "cur_j st < length (row_ind other)"
    by (auto simp: op_step_def py_nth_def Let_def split: sum.splits if_splits)
  from assms consider
      "take_other act other st = Inr st'"
    | "take_self act self st = Inr st'"
    | "combine act self other st = Inr st'"
    by (auto simp: op_step_def Let_def split: sum.splits if_splits)
  then show ?thesis
  proof cases
    case 1
    from take_other_cursors[OF 1] i j show ?thesis by (simp add: op_measure_def)
  next
    case 2
    from take_self_cursors[OF 2] i j show ?thesis by (simp add: op_measure_def)
  next
    case 3
    from combine_cursors[OF 3] i j show ?thesis by (simp add: op_measure_def)
  qed
qed

text \<open>The \<^verbatim>\<open>while i < _len\<close> loop (lines 108-147), with its \<^verbatim>\<open>break\<close> when \<^verbatim>\<open>other\<close> is
  exhausted.\<close>

function op_loop :: "action \<Rightarrow> csr_matrix \<Rightarrow> csr_matrix \<Rightarrow> op_state \<Rightarrow> error + op_state" where
  "op_loop act self other st =
     (if cur_i st < length (row_ind self) then
        (if cur_j st = length (data other) then
           Inr (if act \<noteq> Mul
                then st\<lparr>res_row := res_row st @ drop (cur_i st) (row_ind self),
                        res_cl := res_cl st @ drop (cur_i st) (column_ind self),
                        res_data := res_data st @ drop (cur_i st) (data self)\<rparr>
                else st)
         else
           (case op_step act self other st of
              Inl e \<Rightarrow> Inl e
            | Inr st' \<Rightarrow> op_loop act self other st'))
      else Inr st)"
  by pat_completeness auto
termination
  by (relation "measure (\<lambda>(act, self, other, st). op_measure self other st)")
     (auto simp: op_step_decreases)

declare op_loop.simps [simp del]

text \<open>The whole of \<^verbatim>\<open>_op\<close>: the loop, then the rest of \<^verbatim>\<open>other\<close> (lines 149-157).\<close>

definition csr_op ::
  "csr_matrix \<Rightarrow> csr_matrix \<Rightarrow> action \<Rightarrow> error + (int list \<times> int list \<times> rat list)" where
  "csr_op self other act =
     (case op_loop act self other
             \<lparr>cur_i = 0, cur_j = 0, res_row = [], res_cl = [], res_data = []\<rparr> of
        Inl e \<Rightarrow> Inl e
      | Inr st \<Rightarrow>
          (let st = (if cur_j st < length (data other) \<and> act \<noteq> Mul
                     then st\<lparr>res_row := res_row st @ drop (cur_j st) (row_ind other),
                             res_cl := res_cl st @ drop (cur_j st) (column_ind other),
                             res_data := res_data st @
                               (if act = Add then drop (cur_j st) (data other)
                                else map (\<lambda>x. - x) (drop (cur_j st) (data other)))\<rparr>
                     else st)
           in Inr (res_row st, res_cl st, res_data st)))"

definition from_op :: "error + (int list \<times> int list \<times> rat list) \<Rightarrow> error + csr_matrix" where
  "from_op res = (case res of Inl e \<Rightarrow> Inl e | Inr (r, c, d) \<Rightarrow> CSRMatrix_init (Triplets r c d))"

definition add :: "csr_matrix \<Rightarrow> csr_matrix \<Rightarrow> error + csr_matrix" where
  "add self other = from_op (csr_op self other Add)"

definition sub :: "csr_matrix \<Rightarrow> csr_matrix \<Rightarrow> error + csr_matrix" where
  "sub self other = from_op (csr_op self other Sub)"

definition mul :: "csr_matrix \<Rightarrow> csr_matrix \<Rightarrow> error + csr_matrix" where
  "mul self other = from_op (csr_op self other Mul)"

subsection \<open>Scalar division and multiplication\<close>

text \<open>\<^verbatim>\<open>__truediv__\<close> returns Python's \<^verbatim>\<open>None\<close> for a zero divisor (the bare \<^verbatim>\<open>return\<close> of
  line 161): the result is an optional matrix.\<close>

definition truediv :: "csr_matrix \<Rightarrow> rat \<Rightarrow> error + csr_matrix option" where
  "truediv self other =
     (if other = 0 then Inr None
      else case CSRMatrix_init
                  (Triplets (row_ind self) (column_ind self) (map (\<lambda>i. i / other) (data self))) of
             Inl e \<Rightarrow> Inl e
           | Inr m \<Rightarrow> Inr (Some m))"

definition rmul :: "csr_matrix \<Rightarrow> rat \<Rightarrow> error + csr_matrix" where
  "rmul self other =
     (if other = 0 then CSRMatrix_init (Triplets [] [] [])
      else CSRMatrix_init
             (Triplets (row_ind self) (column_ind self) (map (\<lambda>i. i * other) (data self))))"

subsection \<open>\<^verbatim>\<open>__matmul__\<close>\<close>

text \<open>
  The accumulator \<^verbatim>\<open>res\<close> is a Python \<^verbatim>\<open>dict\<close>, whose \<^verbatim>\<open>items()\<close> come in the order the
  keys were first inserted: an association list with one entry per key, a new key going
  to the end. The product \<^verbatim>\<open>data_1 * data_2\<close> and the sum of \<^verbatim>\<open>+=\<close> are exact here; on
  numpy scalars the code's product and sum wrap or round, which can change the zero test
  of the emission loop. Nothing below is stated about products or sums beyond \<open>1 * 1\<close>.
\<close>

fun acc_add :: "int \<times> int \<Rightarrow> rat \<Rightarrow> ((int \<times> int) \<times> rat) list \<Rightarrow> ((int \<times> int) \<times> rat) list" where
  "acc_add k v [] = [(k, v)]"
| "acc_add k v ((k', v') # res) =
     (if k = k' then (k', v' + v) # res else (k', v') # acc_add k v res)"

definition matmul_inner ::
  "(int \<times> int \<times> rat) \<Rightarrow> (int \<times> int \<times> rat) \<Rightarrow> ((int \<times> int) \<times> rat) list \<Rightarrow> ((int \<times> int) \<times> rat) list" where
  "matmul_inner t1 t2 res =
     (case t1 of (row_1, column_1, data_1) \<Rightarrow>
      case t2 of (row_2, column_2, data_2) \<Rightarrow>
        if column_1 \<noteq> row_2 then res
        else acc_add (row_1, column_2) (data_1 * data_2) res)"

definition matmul_acc :: "csr_matrix \<Rightarrow> csr_matrix \<Rightarrow> ((int \<times> int) \<times> rat) list" where
  "matmul_acc self other =
     fold (\<lambda>t1. fold (\<lambda>t2. matmul_inner t1 t2) (triplets other)) (triplets self) []"

text \<open>The emission loop (lines 182-188): an item whose value is falsy, that is zero, is
  skipped.\<close>

definition emit :: "((int \<times> int) \<times> rat) list \<Rightarrow> int list \<times> int list \<times> rat list" where
  "emit res =
     (let kept = filter (\<lambda>item. snd item \<noteq> 0) res
      in (map (\<lambda>item. fst (fst item)) kept, map (\<lambda>item. snd (fst item)) kept, map snd kept))"

text \<open>\<^verbatim>\<open>self.shape[-1]\<close> and \<^verbatim>\<open>other.shape[0]\<close> raise \<^verbatim>\<open>IndexError\<close> on an empty shape.\<close>

definition matmul :: "csr_matrix \<Rightarrow> csr_matrix \<Rightarrow> error + csr_matrix" where
  "matmul self other =
     (if shape self = [] then Inl IndexError
      else if shape other = [] then Inl IndexError
      else if last (shape self) \<noteq> hd (shape other) then Inl ValueError
      else case emit (matmul_acc self other) of
             (rows, cols, dat) \<Rightarrow> CSRMatrix_init (Triplets rows cols dat))"

section \<open>Fixtures\<close>

text \<open>Small dense arrays and the matrices \<^verbatim>\<open>CSRMatrix(D)\<close> builds from them.\<close>

definition dense_10 :: ndarray where
  "dense_10 = \<lparr>dim0 = 1, dim1 = 2, cells = [[1, 0]]\<rparr>"

definition dense_01 :: ndarray where
  "dense_01 = \<lparr>dim0 = 1, dim1 = 2, cells = [[0, 1]]\<rparr>"

definition dense_11 :: ndarray where
  "dense_11 = \<lparr>dim0 = 1, dim1 = 2, cells = [[1, 1]]\<rparr>"

definition dense_1 :: ndarray where
  "dense_1 = \<lparr>dim0 = 1, dim1 = 1, cells = [[1]]\<rparr>"

definition dense_1000 :: ndarray where
  "dense_1000 = \<lparr>dim0 = 2, dim1 = 2, cells = [[1, 0], [0, 0]]\<rparr>"

definition dense_0110 :: ndarray where
  "dense_0110 = \<lparr>dim0 = 2, dim1 = 2, cells = [[0, 1], [1, 0]]\<rparr>"

definition dense_1002 :: ndarray where
  "dense_1002 = \<lparr>dim0 = 2, dim1 = 2, cells = [[1, 0], [0, 2]]\<rparr>"

definition dense_0000 :: ndarray where
  "dense_0000 = \<lparr>dim0 = 2, dim1 = 2, cells = [[0, 0], [0, 0]]\<rparr>"

definition csr_10 :: csr_matrix where
  "csr_10 = \<lparr>nnz = 1, shape = [1, 2], row_ind = [0], column_ind = [0], data = [1]\<rparr>"

definition csr_01 :: csr_matrix where
  "csr_01 = \<lparr>nnz = 1, shape = [1, 2], row_ind = [0], column_ind = [1], data = [1]\<rparr>"

definition csr_11 :: csr_matrix where
  "csr_11 = \<lparr>nnz = 2, shape = [1, 2], row_ind = [0, 0], column_ind = [0, 1], data = [1, 1]\<rparr>"

definition csr_1 :: csr_matrix where
  "csr_1 = \<lparr>nnz = 1, shape = [1, 1], row_ind = [0], column_ind = [0], data = [1]\<rparr>"

definition csr_1000 :: csr_matrix where
  "csr_1000 = \<lparr>nnz = 1, shape = [2, 2], row_ind = [0], column_ind = [0], data = [1]\<rparr>"

definition csr_0110 :: csr_matrix where
  "csr_0110 = \<lparr>nnz = 2, shape = [2, 2], row_ind = [0, 1], column_ind = [1, 0], data = [1, 1]\<rparr>"

definition csr_1002 :: csr_matrix where
  "csr_1002 = \<lparr>nnz = 2, shape = [2, 2], row_ind = [0, 1], column_ind = [0, 1], data = [1, 2]\<rparr>"

definition csr_0000 :: csr_matrix where
  "csr_0000 = \<lparr>nnz = 0, shape = [2, 2], row_ind = [], column_ind = [], data = []\<rparr>"

lemma fixtures_from_dense:
  "CSRMatrix_init (Dense dense_10) = Inr csr_10"
  "CSRMatrix_init (Dense dense_01) = Inr csr_01"
  "CSRMatrix_init (Dense dense_11) = Inr csr_11"
  "CSRMatrix_init (Dense dense_1) = Inr csr_1"
  "CSRMatrix_init (Dense dense_1000) = Inr csr_1000"
  "CSRMatrix_init (Dense dense_0110) = Inr csr_0110"
  "CSRMatrix_init (Dense dense_1002) = Inr csr_1002"
  "CSRMatrix_init (Dense dense_0000) = Inr csr_0000"
  by code_simp+

section \<open>Element access\<close>

lemma getitem_loop_absent:
  "\<forall>d. (r, c, d) \<notin> set ts \<Longrightarrow> getitem_loop (r, c) ts = 0"
  by (induction ts) auto

lemma getitem_loop_present:
  "(r, c, d) \<in> set ts \<Longrightarrow> (r, c, getitem_loop (r, c) ts) \<in> set ts"
  by (induction ts) (auto split: if_splits)

lemma getitem_loop_find:
  "getitem_loop (r, c) ts =
     (case find (\<lambda>t. fst t = r \<and> fst (snd t) = c) ts of None \<Rightarrow> 0 | Some t \<Rightarrow> snd (snd t))"
  by (induction ts) auto

text \<open>
  C10. For every matrix and every coordinate pair, in bounds or not, \<^verbatim>\<open>a[row, col]\<close>
  returns without raising: the value of the first stored triplet with exactly these
  coordinates when there is one (so a value stored under these coordinates), and 0 when
  there is none.
\<close>

theorem getitem_total:
  "getitem self (r, c) =
     Inr (case find (\<lambda>t. fst t = r \<and> fst (snd t) = c) (triplets self) of
            None \<Rightarrow> 0 | Some t \<Rightarrow> snd (snd t))
   \<and> ((\<exists>d. (r, c, d) \<in> set (triplets self)) \<longrightarrow>
        (\<exists>v. getitem self (r, c) = Inr v \<and> (r, c, v) \<in> set (triplets self)))
   \<and> ((\<forall>d. (r, c, d) \<notin> set (triplets self)) \<longrightarrow> getitem self (r, c) = Inr 0)"
  unfolding getitem_def
  using getitem_loop_find getitem_loop_present getitem_loop_absent by blast

theorem getitem_total_witness:
  "(1, 1, 2) \<in> set (triplets csr_1002) \<and> getitem csr_1002 (1, 1) = Inr 2
   \<and> (\<forall>d. (5, 7, d) \<notin> set (triplets csr_1002))
   \<and> getitem csr_1002 (5, 7) = Inr 0"
proof -
  have present: "(1, 1, 2) \<in> set (triplets csr_1002)"
    by (simp add: triplets_def csr_1002_def)
  have absent: "\<forall>d. (5, 7, d) \<notin> set (triplets csr_1002)"
    by (simp add: triplets_def csr_1002_def)
  from getitem_total [of csr_1002 1 1] present
  have "\<exists>v. getitem csr_1002 (1, 1) = Inr v \<and> (1, 1, v) \<in> set (triplets csr_1002)"
    by blast
  then have one: "getitem csr_1002 (1, 1) = Inr 2"
    by (auto simp: triplets_def csr_1002_def)
  from getitem_total [of csr_1002 5 7] absent
  have two: "getitem csr_1002 (5, 7) = Inr 0"
    by blast
  from present one absent two show ?thesis by blast
qed

section \<open>Element assignment\<close>

text \<open>
  C2. The stored list of \<^verbatim>\<open>CSRMatrix([[1, 0]])\<close> is strictly sorted; after the in-bounds
  assignment \<^verbatim>\<open>a[0, 1] = 5\<close> the new triplet stands before the smaller one: the loop
  inserts at the first stored coordinate that is smaller than the key, not at the first
  that is greater.
\<close>

theorem setitem_breaks_order:
  "CSRMatrix_init (Dense dense_10) = Inr csr_10
   \<and> strictly_sorted csr_10
   \<and> setitem csr_10 (0, 1) 5 =
       Inr \<lparr>nnz = 2, shape = [1, 2], row_ind = [0, 0], column_ind = [1, 0], data = [5, 1]\<rparr>
   \<and> \<not> strictly_sorted
         \<lparr>nnz = 2, shape = [1, 2], row_ind = [0, 0], column_ind = [1, 0], data = [5, 1]\<rparr>"
  by code_simp

text \<open>
  C3. On \<^verbatim>\<open>CSRMatrix([[0, 1]])\<close> the assignment \<^verbatim>\<open>a[0, 0] = 5\<close> to an absent cell falls
  through the loop to the three \<^verbatim>\<open>append\<close> calls, which leave \<^verbatim>\<open>_nnz\<close> as it was: two
  triplets are stored and \<^verbatim>\<open>nnz\<close> is still 1. On \<^verbatim>\<open>CSRMatrix([[1, 1]])\<close> the assignment
  \<^verbatim>\<open>a[0, 1] = 0\<close> to a nonzero cell meets the smaller coordinate \<open>(0, 0)\<close> first and
  takes the insert branch: \<^verbatim>\<open>nnz\<close> goes from 2 to 3.
\<close>

theorem setitem_append_keeps_nnz:
  "CSRMatrix_init (Dense dense_01) = Inr csr_01
   \<and> setitem csr_01 (0, 0) 5 =
       Inr \<lparr>nnz = 1, shape = [1, 2], row_ind = [0, 0], column_ind = [1, 0], data = [1, 5]\<rparr>
   \<and> nnz \<lparr>nnz = 1, shape = [1, 2], row_ind = [0, 0], column_ind = [1, 0], data = [1, 5]\<rparr>
       \<noteq> int (length (data
           \<lparr>nnz = 1, shape = [1, 2], row_ind = [0, 0], column_ind = [1, 0], data = [1, 5]\<rparr>))
   \<and> CSRMatrix_init (Dense dense_11) = Inr csr_11
   \<and> getitem csr_11 (0, 1) = Inr 1
   \<and> nnz csr_11 = 2
   \<and> setitem csr_11 (0, 1) 0 =
       Inr \<lparr>nnz = 3, shape = [1, 2], row_ind = [0, 0, 0], column_ind = [1, 0, 1],
            data = [0, 1, 1]\<rparr>"
  by code_simp

text \<open>
  C6. Assigning 0 to a cell with no stored triplet stores a triplet with value 0: on
  \<^verbatim>\<open>CSRMatrix([[0, 1]])\<close>, \<^verbatim>\<open>a[0, 0] = 0\<close> appends \<open>(0, 0, 0)\<close>; on \<^verbatim>\<open>CSRMatrix([[1, 0]])\<close>,
  \<^verbatim>\<open>a[0, 1] = 0\<close> inserts \<open>(0, 1, 0)\<close> and counts it in \<^verbatim>\<open>nnz\<close>.
\<close>

theorem setitem_zero_absent_stores_zero:
  "getitem csr_01 (0, 0) = Inr 0
   \<and> setitem csr_01 (0, 0) 0 =
       Inr \<lparr>nnz = 1, shape = [1, 2], row_ind = [0, 0], column_ind = [1, 0], data = [1, 0]\<rparr>
   \<and> getitem csr_10 (0, 1) = Inr 0
   \<and> setitem csr_10 (0, 1) 0 =
       Inr \<lparr>nnz = 2, shape = [1, 2], row_ind = [0, 0], column_ind = [1, 0], data = [0, 1]\<rparr>"
  by code_simp

section \<open>Densification\<close>

text \<open>
  C1. \<^verbatim>\<open>to_dense\<close> sizes its result from the last stored row and column index, not from
  \<^verbatim>\<open>shape\<close>. For \<open>D = [[1, 0], [0, 0]]\<close> the round trip returns the 1 x 1 array \<open>[[1]]\<close>;
  for \<open>D = [[0, 1], [1, 0]]\<close> it allocates a 2 x 1 array and raises \<^verbatim>\<open>IndexError\<close> on
  storing cell \<open>(0, 1)\<close>; for the all-zero \<open>D\<close> it raises \<^verbatim>\<open>IndexError\<close> on \<^verbatim>\<open>row_ind[-1]\<close>.
\<close>

theorem to_dense_round_trip_fails:
  "CSRMatrix_init (Dense dense_1000) = Inr csr_1000
   \<and> wf_ndarray dense_1000
   \<and> to_dense csr_1000 = Inr \<lparr>dim0 = 1, dim1 = 1, cells = [[1]]\<rparr>
   \<and> CSRMatrix_init (Dense dense_0110) = Inr csr_0110
   \<and> to_dense csr_0110 = Inl IndexError
   \<and> CSRMatrix_init (Dense dense_0000) = Inr csr_0000
   \<and> to_dense csr_0000 = Inl IndexError"
  by code_simp

section \<open>Scalar division\<close>

text \<open>
  C8, as stated, fails for a zero divisor: \<^verbatim>\<open>a / 0\<close> raises nothing and returns \<^verbatim>\<open>None\<close>.
\<close>

theorem truediv_zero_returns_none:
  "truediv csr_1002 0 = Inr None"
  by code_simp

text \<open>
  C8, amended. For a nonzero scalar \<open>alpha\<close>, \<^verbatim>\<open>a / alpha\<close> returns a new matrix with the
  row and column index sequences of \<open>a\<close> and each stored value divided by \<open>alpha\<close> (its
  shape is empty and its \<^verbatim>\<open>nnz\<close> the number of values); for \<open>alpha = 0\<close> it raises nothing
  and returns \<^verbatim>\<open>None\<close>.
\<close>

theorem truediv_spec:
  "(alpha \<noteq> 0 \<longrightarrow>
      truediv a alpha =
        Inr (Some \<lparr>nnz = int (length (data a)), shape = [], row_ind = row_ind a,
                    column_ind = column_ind a, data = map (\<lambda>x. x / alpha) (data a)\<rparr>))
   \<and> truediv a 0 = Inr None"
  by (simp add: truediv_def CSRMatrix_init_def)

theorem truediv_spec_witness:
  "(2::rat) \<noteq> 0
   \<and> truediv csr_1002 2 =
       Inr (Some \<lparr>nnz = 2, shape = [], row_ind = [0, 1], column_ind = [0, 1], data = [1 / 2, 1]\<rparr>)
   \<and> truediv csr_1002 0 = Inr None"
  using truediv_spec [of 2 csr_1002] by (simp add: csr_1002_def)

section \<open>Elementwise operations\<close>

subsection \<open>No index error on parallel lists of one length\<close>

lemma op_step_ok:
  assumes "wf_lengths self" "wf_lengths other"
    and "cur_i st < length (row_ind self)" "cur_j st < length (data other)"
  shows "\<exists>st'. op_step act self other st = Inr st' \<and> cur_j st' \<le> length (data other)"
  using assms
  by (cases act)
     (auto simp: op_step_def take_other_def take_self_def combine_def py_nth_def
                 wf_lengths_def Let_def)

lemma op_loop_ok:
  assumes "wf_lengths self" "wf_lengths other" "cur_j st \<le> length (data other)"
  shows "\<exists>st'. op_loop act self other st = Inr st'"
  using assms
proof (induction act self other st rule: op_loop.induct)
  case (1 act self other st)
  show ?case
  proof (cases "cur_i st < length (row_ind self) \<and> cur_j st \<noteq> length (data other)")
    case False
    then show ?thesis by (subst op_loop.simps) auto
  next
    case True
    with 1 have "cur_j st < length (data other)" by simp
    with op_step_ok [OF "1.prems"(1,2), of st act] True
    obtain st' where s: "op_step act self other st = Inr st'"
      and j: "cur_j st' \<le> length (data other)" by blast
    from "1.IH" [of st'] True s j "1.prems"
    obtain st'' where "op_loop act self other st' = Inr st''" by blast
    with True s show ?thesis by (subst op_loop.simps) simp
  qed
qed

lemma csr_op_ok:
  assumes "wf_lengths self" "wf_lengths other"
  shows "\<exists>t. csr_op self other act = Inr t"
proof -
  from op_loop_ok [OF assms,
      of "\<lparr>cur_i = 0, cur_j = 0, res_row = [], res_cl = [], res_data = []\<rparr>" act]
  obtain st where "op_loop act self other
      \<lparr>cur_i = 0, cur_j = 0, res_row = [], res_cl = [], res_data = []\<rparr> = Inr st"
    by auto
  then show ?thesis by (simp add: csr_op_def Let_def)
qed

lemma from_op_ok: "res = Inr t \<Longrightarrow> \<exists>M. from_op res = Inr M"
  by (cases t) (simp add: from_op_def CSRMatrix_init_def)

lemma from_op_shape: "from_op res = Inr M \<Longrightarrow> shape M = []"
  by (auto simp: from_op_def CSRMatrix_init_def split: sum.splits prod.splits)

subsection \<open>The merge never reads \<^verbatim>\<open>shape\<close>\<close>

lemma take_other_shape:
  "take_other act (other\<lparr>shape := t\<rparr>) st = take_other act other st"
  by (simp add: take_other_def Let_def cong: sum.case_cong if_cong action.case_cong)

lemma take_self_shape:
  "take_self act (self\<lparr>shape := s\<rparr>) st = take_self act self st"
  by (simp add: take_self_def Let_def cong: sum.case_cong if_cong action.case_cong)

lemma combine_shape:
  "combine act (self\<lparr>shape := s\<rparr>) (other\<lparr>shape := t\<rparr>) st = combine act self other st"
  by (simp add: combine_def Let_def cong: sum.case_cong if_cong action.case_cong)

lemma op_step_shape:
  "op_step act (self\<lparr>shape := s\<rparr>) (other\<lparr>shape := t\<rparr>) st = op_step act self other st"
  by (simp add: op_step_def Let_def take_other_shape take_self_shape combine_shape
           cong: sum.case_cong if_cong)

lemma op_loop_shape:
  "op_loop act (self\<lparr>shape := s\<rparr>) (other\<lparr>shape := t\<rparr>) st = op_loop act self other st"
proof (induction act self other st rule: op_loop.induct)
  case (1 act self other st)
  then show ?case
    by (simp add: op_loop.simps [of act "self\<lparr>shape := s\<rparr>" "other\<lparr>shape := t\<rparr>" st]
                  op_loop.simps [of act self other st] op_step_shape
             split: sum.splits)
qed

lemma csr_op_shape:
  "csr_op (self\<lparr>shape := s\<rparr>) (other\<lparr>shape := t\<rparr>) act = csr_op self other act"
  by (simp add: csr_op_def op_loop_shape Let_def cong: sum.case_cong if_cong)

text \<open>
  C4, as stated, fails: the 1 x 1 matrix \<^verbatim>\<open>CSRMatrix([[1]])\<close> and the 1 x 2 matrix
  \<^verbatim>\<open>CSRMatrix([[0, 1]])\<close> have different shapes, and both \<^verbatim>\<open>+\<close> and \<^verbatim>\<open>-\<close> return a matrix.
\<close>

theorem add_sub_shape_mismatch_returns:
  "shape csr_1 \<noteq> shape csr_01
   \<and> add csr_1 csr_01 =
       Inr \<lparr>nnz = 2, shape = [], row_ind = [0, 0], column_ind = [0, 1], data = [1, 1]\<rparr>
   \<and> sub csr_1 csr_01 =
       Inr \<lparr>nnz = 2, shape = [], row_ind = [0, 0], column_ind = [0, 1], data = [1, - 1]\<rparr>"
  by code_simp

text \<open>
  C4, amended. \<^verbatim>\<open>A + B\<close> and \<^verbatim>\<open>A - B\<close> make no shape check: for all matrices \<open>A\<close> and \<open>B\<close>
  whose three sequences have one length each, whatever their shapes, both operations
  return a result matrix, and the result is the same for any other shapes \<open>s\<close> and \<open>t\<close> of
  the operands. The operators build new lists; neither operand is changed (in the model
  the operands are values).
\<close>

theorem add_sub_ignore_shapes:
  assumes "wf_lengths A" and "wf_lengths B"
  shows "(\<exists>M. add A B = Inr M) \<and> (\<exists>M. sub A B = Inr M)
         \<and> add (A\<lparr>shape := s\<rparr>) (B\<lparr>shape := t\<rparr>) = add A B
         \<and> sub (A\<lparr>shape := s\<rparr>) (B\<lparr>shape := t\<rparr>) = sub A B"
proof -
  from csr_op_ok [OF assms] from_op_ok have "\<exists>M. add A B = Inr M"
    unfolding add_def by blast
  moreover from csr_op_ok [OF assms] from_op_ok have "\<exists>M. sub A B = Inr M"
    unfolding sub_def by blast
  ultimately show ?thesis
    by (simp add: add_def sub_def csr_op_shape)
qed

theorem add_sub_ignore_shapes_witness:
  "wf_lengths csr_1 \<and> wf_lengths csr_01 \<and> shape csr_1 \<noteq> shape csr_01
   \<and> (\<exists>M. add csr_1 csr_01 = Inr M) \<and> (\<exists>M. sub csr_1 csr_01 = Inr M)
   \<and> add (csr_1\<lparr>shape := [1, 2]\<rparr>) (csr_01\<lparr>shape := [1, 2]\<rparr>) = add csr_1 csr_01
   \<and> sub (csr_1\<lparr>shape := [1, 2]\<rparr>) (csr_01\<lparr>shape := [1, 2]\<rparr>) = sub csr_1 csr_01"
proof -
  have a: "wf_lengths csr_1" by (simp add: wf_lengths_def csr_1_def)
  have b: "wf_lengths csr_01" by (simp add: wf_lengths_def csr_01_def)
  have c: "shape csr_1 \<noteq> shape csr_01" by (simp add: csr_1_def csr_01_def)
  from a b c add_sub_ignore_shapes [OF a b, of "[1, 2]" "[1, 2]"] show ?thesis by blast
qed

subsection \<open>Subtracting a matrix from itself\<close>

lemma op_step_self_sub:
  assumes "wf_lengths A" "i < length (data A)"
  shows "op_step Sub A A \<lparr>cur_i = i, cur_j = i, res_row = [], res_cl = [], res_data = []\<rparr>
         = Inr \<lparr>cur_i = i + 1, cur_j = i + 1, res_row = [], res_cl = [], res_data = []\<rparr>"
  using assms by (simp add: op_step_def combine_def py_nth_def wf_lengths_def Let_def)

lemma op_loop_self_sub:
  assumes "wf_lengths A" "i \<le> length (data A)"
  shows "op_loop Sub A A \<lparr>cur_i = i, cur_j = i, res_row = [], res_cl = [], res_data = []\<rparr>
         = Inr \<lparr>cur_i = length (data A), cur_j = length (data A),
                 res_row = [], res_cl = [], res_data = []\<rparr>"
  using assms
proof (induction "length (data A) - i" arbitrary: i)
  case 0
  then have "i = length (data A)" by simp
  with 0 show ?case by (subst op_loop.simps) (simp add: wf_lengths_def)
next
  case (Suc n)
  then have lt: "i < length (data A)" by simp
  from Suc have ih:
    "op_loop Sub A A \<lparr>cur_i = i + 1, cur_j = i + 1, res_row = [], res_cl = [], res_data = []\<rparr>
       = Inr \<lparr>cur_i = length (data A), cur_j = length (data A),
               res_row = [], res_cl = [], res_data = []\<rparr>"
    by simp
  show ?case
    using lt Suc.prems ih
    by (subst op_loop.simps) (simp add: op_step_self_sub wf_lengths_def)
qed

text \<open>
  C7, as stated, fails on the shape: \<^verbatim>\<open>CSRMatrix([[1]])\<close> has shape \<open>(1, 1)\<close>, and the
  difference with itself, built by the triplet branch of the constructor, has the empty
  shape.
\<close>

theorem sub_self_shape_differs:
  "CSRMatrix_init (Dense dense_1) = Inr csr_1
   \<and> sub csr_1 csr_1 = Inr \<lparr>nnz = 0, shape = [], row_ind = [], column_ind = [], data = []\<rparr>
   \<and> shape \<lparr>nnz = 0, shape = [], row_ind = [], column_ind = [], data = []\<rparr> \<noteq> shape csr_1"
  by code_simp

text \<open>
  C7, amended. For every matrix \<open>A\<close> whose three sequences have one length, \<^verbatim>\<open>A - A\<close>
  returns a matrix that stores no triplets, with \<^verbatim>\<open>nnz == 0\<close>; its shape is the empty list,
  whatever the shape of \<open>A\<close>.
\<close>

theorem sub_self_empty:
  assumes "wf_lengths A"
  shows "sub A A = Inr \<lparr>nnz = 0, shape = [], row_ind = [], column_ind = [], data = []\<rparr>"
  using op_loop_self_sub [OF assms, of 0]
  by (simp add: sub_def csr_op_def from_op_def CSRMatrix_init_def)

theorem sub_self_empty_witness:
  "wf_lengths csr_1002
   \<and> sub csr_1002 csr_1002 =
       Inr \<lparr>nnz = 0, shape = [], row_ind = [], column_ind = [], data = []\<rparr>"
proof -
  have a: "wf_lengths csr_1002" by (simp add: wf_lengths_def csr_1002_def)
  from a sub_self_empty [OF a] show ?thesis by blast
qed

section \<open>The shape of computed matrices\<close>

text \<open>
  C9. The triplet branch of the constructor leaves \<^verbatim>\<open>shape\<close> at its initial value, the
  empty list; every matrix returned by \<^verbatim>\<open>+\<close>, \<^verbatim>\<open>-\<close>, elementwise \<^verbatim>\<open>*\<close>, \<^verbatim>\<open>@\<close>, scalar
  multiplication or scalar division comes from that branch and has the empty shape,
  whatever the shapes of the operands.
\<close>

theorem results_have_empty_shape:
  "CSRMatrix_init (Triplets r c d) =
     Inr \<lparr>nnz = int (length d), shape = [], row_ind = r, column_ind = c, data = d\<rparr>
   \<and> (\<forall>M. add A B = Inr M \<longrightarrow> shape M = [])
   \<and> (\<forall>M. sub A B = Inr M \<longrightarrow> shape M = [])
   \<and> (\<forall>M. mul A B = Inr M \<longrightarrow> shape M = [])
   \<and> (\<forall>M. matmul A B = Inr M \<longrightarrow> shape M = [])
   \<and> (\<forall>M. rmul A alpha = Inr M \<longrightarrow> shape M = [])
   \<and> (\<forall>M. truediv A alpha = Inr (Some M) \<longrightarrow> shape M = [])"
proof -
  have "\<forall>M. matmul A B = Inr M \<longrightarrow> shape M = []"
    by (auto simp: matmul_def CSRMatrix_init_def split: if_splits prod.splits)
  moreover have "\<forall>M. rmul A alpha = Inr M \<longrightarrow> shape M = []"
    by (auto simp: rmul_def CSRMatrix_init_def split: if_splits)
  moreover have "\<forall>M. truediv A alpha = Inr (Some M) \<longrightarrow> shape M = []"
    by (auto simp: truediv_def CSRMatrix_init_def split: if_splits)
  ultimately show ?thesis
    by (simp add: add_def sub_def mul_def from_op_shape CSRMatrix_init_def)
qed

theorem results_have_empty_shape_witness:
  "shape csr_11 = [1, 2] \<and> shape csr_0110 = [2, 2]
   \<and> add csr_11 csr_0110 =
       Inr \<lparr>nnz = 3, shape = [], row_ind = [0, 0, 1], column_ind = [0, 1, 0], data = [1, 2, 1]\<rparr>
   \<and> sub csr_11 csr_0110 =
       Inr \<lparr>nnz = 2, shape = [], row_ind = [0, 1], column_ind = [0, 0], data = [1, - 1]\<rparr>
   \<and> mul csr_11 csr_0110 =
       Inr \<lparr>nnz = 1, shape = [], row_ind = [0], column_ind = [1], data = [1]\<rparr>
   \<and> matmul csr_11 csr_0110 =
       Inr \<lparr>nnz = 2, shape = [], row_ind = [0, 0], column_ind = [1, 0], data = [1, 1]\<rparr>
   \<and> rmul csr_11 2 =
       Inr \<lparr>nnz = 2, shape = [], row_ind = [0, 0], column_ind = [0, 1], data = [2, 2]\<rparr>
   \<and> truediv csr_11 2 =
       Inr (Some \<lparr>nnz = 2, shape = [], row_ind = [0, 0], column_ind = [0, 1],
                   data = [1 / 2, 1 / 2]\<rparr>)"
proof -
  have shapes: "shape csr_11 = [1, 2] \<and> shape csr_0110 = [2, 2]"
    by (simp add: csr_11_def csr_0110_def)
  have e1: "add csr_11 csr_0110 =
      Inr \<lparr>nnz = 3, shape = [], row_ind = [0, 0, 1], column_ind = [0, 1, 0], data = [1, 2, 1]\<rparr>"
    by code_simp
  have e2: "sub csr_11 csr_0110 =
      Inr \<lparr>nnz = 2, shape = [], row_ind = [0, 1], column_ind = [0, 0], data = [1, - 1]\<rparr>"
    by code_simp
  have e3: "mul csr_11 csr_0110 =
      Inr \<lparr>nnz = 1, shape = [], row_ind = [0], column_ind = [1], data = [1]\<rparr>"
    by code_simp
  have e4: "matmul csr_11 csr_0110 =
      Inr \<lparr>nnz = 2, shape = [], row_ind = [0, 0], column_ind = [1, 0], data = [1, 1]\<rparr>"
    by code_simp
  have e5: "rmul csr_11 2 =
      Inr \<lparr>nnz = 2, shape = [], row_ind = [0, 0], column_ind = [0, 1], data = [2, 2]\<rparr>"
    by code_simp
  have e6: "truediv csr_11 2 =
      Inr (Some \<lparr>nnz = 2, shape = [], row_ind = [0, 0], column_ind = [0, 1],
                  data = [1 / 2, 1 / 2]\<rparr>)"
    by code_simp
  from results_have_empty_shape [where A = csr_11 and B = csr_0110 and alpha = 2]
    shapes e1 e2 e3 e4 e5 e6
  show ?thesis by blast
qed

section \<open>Matrix product\<close>

text \<open>
  C5. The triplet list \<^verbatim>\<open>A @ B\<close> emits is not sorted in row-major order. The product of
  \<^verbatim>\<open>CSRMatrix([[1, 1]])\<close> and \<^verbatim>\<open>CSRMatrix([[0, 1], [1, 0]])\<close>, both stored in row-major
  order and with matching inner dimension 2, is emitted as \<open>(0, 1, 1), (0, 0, 1)\<close>: the
  accumulator's keys come out in the order of their insertion and are never sorted. The
  merge of \<^verbatim>\<open>_op\<close> needs the row-major order: subtracting \<^verbatim>\<open>CSRMatrix([[1, 0]])\<close> from
  this product stores the coordinate \<open>(0, 0)\<close> twice, and reading cell \<open>(0, 0)\<close> of the
  difference gives \<open>-1\<close> where the dense difference \<open>[[1, 1]] - [[1, 0]]\<close> has 0.
\<close>

theorem matmul_result_unsorted:
  "CSRMatrix_init (Dense dense_11) = Inr csr_11
   \<and> CSRMatrix_init (Dense dense_0110) = Inr csr_0110
   \<and> last (shape csr_11) = hd (shape csr_0110)
   \<and> strictly_sorted csr_11 \<and> strictly_sorted csr_0110
   \<and> matmul csr_11 csr_0110 =
       Inr \<lparr>nnz = 2, shape = [], row_ind = [0, 0], column_ind = [1, 0], data = [1, 1]\<rparr>
   \<and> \<not> strictly_sorted
         \<lparr>nnz = 2, shape = [], row_ind = [0, 0], column_ind = [1, 0], data = [1, 1]\<rparr>
   \<and> strictly_sorted csr_10
   \<and> sub \<lparr>nnz = 2, shape = [], row_ind = [0, 0], column_ind = [1, 0], data = [1, 1]\<rparr> csr_10 =
       Inr \<lparr>nnz = 3, shape = [], row_ind = [0, 0, 0], column_ind = [0, 1, 0],
            data = [- 1, 1, 1]\<rparr>
   \<and> \<not> distinct (coords
         \<lparr>nnz = 3, shape = [], row_ind = [0, 0, 0], column_ind = [0, 1, 0],
            data = [- 1, 1, 1]\<rparr>)
   \<and> getitem \<lparr>nnz = 3, shape = [], row_ind = [0, 0, 0], column_ind = [0, 1, 0],
               data = [- 1, 1, 1]\<rparr> (0, 0) = Inr (- 1)"
  by code_simp

end
